theory Spec2Isabelle
  imports Main
begin

section \<open>Data shared by the two load balancers\<close>

text \<open>
  The repository holds two programs: \<^verbatim>\<open>lb-notg/lb.go\<close>, a load balancer over one
  flat list of servers with a stored rotation index, and a second one that binds
  target groups of servers to request paths. Both declare the same \<^verbatim>\<open>Server\<close> and
  the same \<^verbatim>\<open>isServerHealthy\<close>.

  A parsed \<^verbatim>\<open>*url.URL\<close> is seen through the two observations the code makes of it:
  the field \<^verbatim>\<open>Host\<close> and the result of the method \<^verbatim>\<open>String()\<close>. Of a request
  only \<^verbatim>\<open>r.URL.Path\<close> is read and written. Pointers held in the slices are taken
  to be non-nil, as \<^verbatim>\<open>NewLoadBalancer\<close> and \<^verbatim>\<open>main\<close> build them.
\<close>

record url =
  Host :: string
  String :: string

record Server =
  URL :: url
  healthCheckPath :: string

record request =
  URL_Path :: string

text \<open>
  What the handler does to the response writer is one of two calls:
  \<^verbatim>\<open>proxy.ServeHTTP(w, r)\<close> on a proxy built for a server's URL, with the request as
  it stands at the call, or \<^verbatim>\<open>http.Error(w, msg, code)\<close>. The handler makes no other
  call on \<^verbatim>\<open>w\<close>; a response is recorded as the call and its arguments.
\<close>

datatype response =
  proxy_ServeHTTP url request
| http_Error string int

datatype runtime_error = IndexOutOfRange | DivideByZero

definition StatusServiceUnavailable :: int where
  "StatusServiceUnavailable = 503"

definition StatusOK :: int where
  "StatusOK = 200"

section \<open>The network and the clock\<close>

text \<open>
  \<^verbatim>\<open>client.Get\<close> either fails with a transport error (the five second timeout of
  the client included) or yields a response with a status code. The outcome of the
  \<open>k\<close>-th GET that the process issues, when it goes to URL \<open>u\<close>, is \<open>net k u\<close>: any
  behaviour of the backends over time is such a function. The world counts the GETs
  issued and logs every GET and every \<^verbatim>\<open>time.Sleep\<close> in order.
\<close>

datatype get_result = TransportError | StatusCode int

datatype event = Get string | Sleep nat

record world =
  gets :: nat
  trace :: "event list"

type_synonym network = "nat \<Rightarrow> string \<Rightarrow> get_result"

definition client_Get :: "network \<Rightarrow> string \<Rightarrow> world \<Rightarrow> get_result \<times> world" where
  "client_Get net u w =
     (net (gets w) u, w\<lparr>gets := gets w + 1, trace := trace w @ [Get u]\<rparr>)"

definition time_Sleep :: "nat \<Rightarrow> world \<Rightarrow> world" where
  "time_Sleep secs w = w\<lparr>trace := trace w @ [Sleep secs]\<rparr>"

section \<open>isServerHealthy\<close>

definition maxRetries :: nat where
  "maxRetries = 3"

text \<open>
  The condition \<^verbatim>\<open>err != nil || resp.StatusCode != http.StatusOK\<close> under which an
  attempt is retried.
\<close>

fun attempt_failed :: "get_result \<Rightarrow> bool" where
  "attempt_failed TransportError = True"
| "attempt_failed (StatusCode c) = (c \<noteq> StatusOK)"

text \<open>The loop \<^verbatim>\<open>for retry := 0; retry < maxRetries; retry++\<close>.\<close>

function isServerHealthy_retry :: "network \<Rightarrow> Server \<Rightarrow> nat \<Rightarrow> world \<Rightarrow> bool \<times> world" where
  "isServerHealthy_retry net server retry w =
     (if retry < maxRetries then
        (case client_Get net (String (URL server) @ healthCheckPath server) w of
           (res, w1) \<Rightarrow>
             if attempt_failed res
             then isServerHealthy_retry net server (retry + 1) (time_Sleep 1 w1)
             else (True, w1))
      else (False, w))"
  by pat_completeness auto
termination
  by (relation "measure (\<lambda>(net, server, retry, w). maxRetries - retry)") auto

definition isServerHealthy :: "network \<Rightarrow> Server \<Rightarrow> world \<Rightarrow> bool \<times> world" where
  "isServerHealthy net server w =
     (if healthCheckPath server = [] then (True, w)
      else isServerHealthy_retry net server 0 w)"

section \<open>The flat load balancer\<close>

record LoadBalancer =
  servers :: "Server list"
  index :: int

definition NewLoadBalancer :: "url list \<Rightarrow> string \<Rightarrow> LoadBalancer" where
  "NewLoadBalancer serverURLs hcp =
     \<lparr>servers = map (\<lambda>u. \<lparr>URL = u, healthCheckPath = hcp\<rparr>) serverURLs, index = 0\<rparr>"

text \<open>
  \<^verbatim>\<open>r.URL.Path = fmt.Sprintf("/%s%s", server.URL.Host, r.URL.Path)\<close>
\<close>

definition rewrite_path :: "Server \<Rightarrow> request \<Rightarrow> request" where
  "rewrite_path server r = r\<lparr>URL_Path := ''/'' @ Host (URL server) @ URL_Path r\<rparr>"

definition unavailable :: response where
  "unavailable = http_Error ''No healthy backend servers available'' StatusServiceUnavailable"

text \<open>
  The loop \<^verbatim>\<open>for i := 0; i < len(lb.servers); i++\<close> of \<^verbatim>\<open>ServeHTTP\<close>. Reading
  \<^verbatim>\<open>lb.servers[lb.index]\<close> panics when the index is out of range, and the remainder
  panics on a zero divisor. Where the remainder is taken the index has passed the range
  check, so it is not negative and Go's truncated \<^verbatim>\<open>%\<close> is \<open>mod\<close>; the sum stays
  below the length of a slice and cannot overflow.
\<close>

function ServeHTTP_loop ::
  "network \<Rightarrow> LoadBalancer \<Rightarrow> request \<Rightarrow> nat \<Rightarrow> world
     \<Rightarrow> (runtime_error + response) \<times> LoadBalancer \<times> world" where
  "ServeHTTP_loop net lb r i w =
     (if i < length (servers lb) then
        (if 0 \<le> index lb \<and> index lb < int (length (servers lb)) then
           (let server = servers lb ! nat (index lb) in
            if length (servers lb) = 0 then (Inl DivideByZero, lb, w)
            else
              (let lb' = lb\<lparr>index := (index lb + 1) mod int (length (servers lb))\<rparr> in
               case isServerHealthy net server w of
                 (True, w') \<Rightarrow>
                   (Inr (proxy_ServeHTTP (URL server) (rewrite_path server r)), lb', w')
               | (False, w') \<Rightarrow> ServeHTTP_loop net lb' r (i + 1) w'))
         else (Inl IndexOutOfRange, lb, w))
      else (Inr unavailable, lb, w))"
  by pat_completeness auto
termination
  by (relation "measure (\<lambda>(net, lb, r, i, w). length (servers lb) - i)") auto

definition ServeHTTP ::
  "network \<Rightarrow> LoadBalancer \<Rightarrow> request \<Rightarrow> world
     \<Rightarrow> (runtime_error + response) \<times> LoadBalancer \<times> world" where
  "ServeHTTP net lb r w = ServeHTTP_loop net lb r 0 w"

section \<open>The load balancer with target groups\<close>

record TargetGroup =
  URIPath :: string
  Servers :: "Server list"

record LoadBalancer_tg =
  targetGroups :: "TargetGroup list"

definition NewLoadBalancer_tg :: "TargetGroup list \<Rightarrow> LoadBalancer_tg" where
  "NewLoadBalancer_tg tgs = \<lparr>targetGroups = tgs\<rparr>"

text \<open>
  \<^verbatim>\<open>getNextServer\<close> computes its index in a local variable from the length of the
  group alone and stores nothing; \<open>None\<close> is the \<^verbatim>\<open>nil\<close> it returns for an empty
  group. All operands are lengths, so the arithmetic is on \<open>nat\<close>.
\<close>

definition getNextServer :: "TargetGroup \<Rightarrow> runtime_error + Server option" where
  "getNextServer targetGroup =
     (let serverCount = length (Servers targetGroup) in
      if serverCount = 0 then Inr None
      else
        (let targetGroupIndex = length (Servers targetGroup) mod serverCount;
             targetGroupIndex = (targetGroupIndex + 1) mod serverCount
         in if targetGroupIndex < length (Servers targetGroup)
            then Inr (Some (Servers targetGroup ! targetGroupIndex))
            else Inl IndexOutOfRange))"

text \<open>
  The loop \<^verbatim>\<open>for _, targetGroup := range lb.targetGroups\<close> of \<^verbatim>\<open>ServeHTTP\<close>: a group
  whose path differs, whose selection is \<^verbatim>\<open>nil\<close> or whose selected server is not
  healthy is passed over and the loop goes on to the next group.
\<close>

fun ServeHTTP_range ::
  "network \<Rightarrow> request \<Rightarrow> TargetGroup list \<Rightarrow> world \<Rightarrow> (runtime_error + response) \<times> world" where
  "ServeHTTP_range net r [] w = (Inr unavailable, w)"
| "ServeHTTP_range net r (targetGroup # rest) w =
     (if URL_Path r = URIPath targetGroup then
        (case getNextServer targetGroup of
           Inl e \<Rightarrow> (Inl e, w)
         | Inr None \<Rightarrow> ServeHTTP_range net r rest w
         | Inr (Some server) \<Rightarrow>
             (case isServerHealthy net server w of
                (True, w') \<Rightarrow>
                  (Inr (proxy_ServeHTTP (URL server) (rewrite_path server r)), w')
              | (False, w') \<Rightarrow> ServeHTTP_range net r rest w'))
      else ServeHTTP_range net r rest w)"

definition ServeHTTP_tg ::
  "network \<Rightarrow> LoadBalancer_tg \<Rightarrow> request \<Rightarrow> world \<Rightarrow> (runtime_error + response) \<times> world" where
  "ServeHTTP_tg net lb r w = ServeHTTP_range net r (targetGroups lb) w"

section \<open>What the client is sent for \<^verbatim>\<open>http.Error\<close>\<close>

text \<open>
  \<^verbatim>\<open>http.Error\<close> belongs to the package \<^verbatim>\<open>net/http\<close> that both programs import. It
  is modelled after the library: on the header map of the response writer it deletes
  \<^verbatim>\<open>Content-Length\<close> and sets \<^verbatim>\<open>Content-Type\<close> and \<^verbatim>\<open>X-Content-Type-Options\<close>,
  writes the status code with \<^verbatim>\<open>WriteHeader\<close>, and prints the message with
  \<^verbatim>\<open>fmt.Fprintln\<close>, that is, followed by a newline. A response writer holds the header
  map, the status code once it is written, and the body written so far; the first
  \<^verbatim>\<open>WriteHeader\<close> fixes the status and a \<^verbatim>\<open>Write\<close> before it fixes 200. The server
  adds headers of its own (the date, the length of the body) when it sends the response;
  they are outside this model. What the reverse proxy writes is not fixed by the source.
\<close>

record ResponseWriter =
  Header :: "string \<rightharpoonup> string list"
  status :: "int option"
  body :: string

definition new_writer :: ResponseWriter where
  "new_writer = \<lparr>Header = Map.empty, status = None, body = []\<rparr>"

definition WriteHeader :: "int \<Rightarrow> ResponseWriter \<Rightarrow> ResponseWriter" where
  "WriteHeader code rw = (if status rw = None then rw\<lparr>status := Some code\<rparr> else rw)"

definition Write :: "string \<Rightarrow> ResponseWriter \<Rightarrow> ResponseWriter" where
  "Write bytes rw = (let rw1 = WriteHeader StatusOK rw in rw1\<lparr>body := body rw1 @ bytes\<rparr>)"

definition net_http_Error :: "string \<Rightarrow> int \<Rightarrow> ResponseWriter \<Rightarrow> ResponseWriter" where
  "net_http_Error msg code rw =
     (let h = Header rw;
          h = h(''Content-Length'' := None);
          h = h(''Content-Type'' \<mapsto> [''text/plain; charset=utf-8'']);
          h = h(''X-Content-Type-Options'' \<mapsto> [''nosniff''])
      in Write (msg @ [CHR 0x0A]) (WriteHeader code (rw\<lparr>Header := h\<rparr>)))"

fun response_written :: "response \<Rightarrow> ResponseWriter option" where
  "response_written (http_Error msg code) = Some (net_http_Error msg code new_writer)"
| "response_written (proxy_ServeHTTP u r) = None"

section \<open>The dispatcher in the words of the specification\<close>

text \<open>
  The specification describes the dispatcher as a walk over an ordered list of
  candidates: probe each in turn, forward to the first one that is healthy, answer that
  the service is unavailable when the list runs out. \<open>spec_dispatch\<close> is that walk;
  beside the chosen server it returns how many candidates were pulled. It is the
  reference the two \<^verbatim>\<open>ServeHTTP\<close> loops are compared with.
\<close>

fun spec_dispatch :: "network \<Rightarrow> Server list \<Rightarrow> world \<Rightarrow> (Server option \<times> nat) \<times> world" where
  "spec_dispatch net [] w = ((None, 0), w)"
| "spec_dispatch net (candidate # rest) w =
     (case isServerHealthy net candidate w of
        (True, w') \<Rightarrow> ((Some candidate, 1), w')
      | (False, w') \<Rightarrow>
          (case spec_dispatch net rest w' of ((res, k), w'') \<Rightarrow> ((res, Suc k), w'')))"

definition respond :: "Server option \<Rightarrow> request \<Rightarrow> response" where
  "respond res r =
     (case res of
        Some server \<Rightarrow> proxy_ServeHTTP (URL server) (rewrite_path server r)
      | None \<Rightarrow> unavailable)"

text \<open>
  The words "every probed candidate is unhealthy": the candidates, probed one after
  the other, each on the world the probe before it left, all come out unhealthy.
  \<open>probed_unhealthy\<close> returns the world after the last probe, and \<open>None\<close> as soon as
  one candidate is healthy.
\<close>

fun probed_unhealthy :: "network \<Rightarrow> Server list \<Rightarrow> world \<Rightarrow> world option" where
  "probed_unhealthy net [] w = Some w"
| "probed_unhealthy net (candidate # rest) w =
     (case isServerHealthy net candidate w of
        (True, w') \<Rightarrow> None
      | (False, w') \<Rightarrow> probed_unhealthy net rest w')"

text \<open>
  The candidates of a request with target groups: what \<^verbatim>\<open>getNextServer\<close> selects from
  each route whose path equals the request path, in configuration order. A route with
  another path or without servers contributes none.
\<close>

fun selections :: "string \<Rightarrow> TargetGroup list \<Rightarrow> Server list" where
  "selections requestPath [] = []"
| "selections requestPath (route # routes) =
     (if requestPath = URIPath route then
        (case getNextServer route of
           Inr (Some server) \<Rightarrow> server # selections requestPath routes
         | _ \<Rightarrow> selections requestPath routes)
      else selections requestPath routes)"

text \<open>
  The router of the specification: the first route, in configuration order, whose path
  equals the request path.
\<close>

fun spec_resolve :: "string \<Rightarrow> TargetGroup list \<Rightarrow> TargetGroup option" where
  "spec_resolve requestPath [] = None"
| "spec_resolve requestPath (route # routes) =
     (if requestPath = URIPath route then Some route else spec_resolve requestPath routes)"

section \<open>Configurations and networks used as concrete inputs\<close>

text \<open>
  \<open>localhost port\<close> stands for \<^verbatim>\<open>parseURL("http://localhost:<port>")\<close> of
  \<^verbatim>\<open>main\<close>.
\<close>

definition localhost :: "string \<Rightarrow> url" where
  "localhost port = \<lparr>Host = ''localhost:'' @ port, String = ''http://localhost:'' @ port\<rparr>"

definition backend :: "string \<Rightarrow> string \<Rightarrow> Server" where
  "backend port hcp = \<lparr>URL = localhost port, healthCheckPath = hcp\<rparr>"

definition net_down :: network where
  "net_down k u = TransportError"

definition net_up :: network where
  "net_up k u = StatusCode 200"

definition net_8081_up :: network where
  "net_8081_up k u =
     (if u = ''http://localhost:8081/health'' then StatusCode 200 else StatusCode 500)"

definition net_third :: network where
  "net_third k u = (if k = 2 then StatusCode 200 else if k = 1 then StatusCode 404 else TransportError)"

definition world0 :: world where
  "world0 = \<lparr>gets = 0, trace = []\<rparr>"

definition flat_main :: LoadBalancer where
  "flat_main = NewLoadBalancer [localhost ''8081'', localhost ''8082''] ''/health''"

definition tg_main :: LoadBalancer_tg where
  "tg_main = NewLoadBalancer_tg
     [\<lparr>URIPath = ''/app1'',
       Servers = [backend ''8081'' ''/health'', backend ''8082'' ''/health'']\<rparr>,
      \<lparr>URIPath = ''/app2'',
       Servers = [backend ''8083'' ''/health'', backend ''8084'' ''/health'']\<rparr>]"

definition flat_unchecked :: LoadBalancer where
  "flat_unchecked = NewLoadBalancer [localhost ''8081'', localhost ''8082''] []"

definition group_unchecked :: TargetGroup where
  "group_unchecked =
     \<lparr>URIPath = ''/app1'', Servers = [backend ''8081'' ''/health'', backend ''8082'' []]\<rparr>"

definition tg_empty :: LoadBalancer_tg where
  "tg_empty = NewLoadBalancer_tg
     [\<lparr>URIPath = ''/app1'', Servers = []\<rparr>,
      \<lparr>URIPath = ''/app2'', Servers = [backend ''8083'' [], backend ''8084'' []]\<rparr>]"

definition net_8084_up :: network where
  "net_8084_up k u =
     (if u = ''http://localhost:8084/health'' then StatusCode 200 else TransportError)"

definition tg_shared_path :: LoadBalancer_tg where
  "tg_shared_path = NewLoadBalancer_tg
     [\<lparr>URIPath = ''/app1'',
       Servers = [backend ''8081'' ''/health'', backend ''8082'' ''/health'']\<rparr>,
      \<lparr>URIPath = ''/app1'',
       Servers = [backend ''8083'' ''/health'', backend ''8084'' ''/health'']\<rparr>]"

definition tg_fallback :: LoadBalancer_tg where
  "tg_fallback = NewLoadBalancer_tg
     [\<lparr>URIPath = ''/app2'',
       Servers = [backend ''8083'' ''/health'', backend ''8084'' ''/health'']\<rparr>,
      \<lparr>URIPath = ''/app1'', Servers = [backend ''8081'' ''/health'']\<rparr>,
      \<lparr>URIPath = ''/app1'', Servers = [backend ''8082'' []]\<rparr>]"

definition pool3 :: "Server list" where
  "pool3 = [backend ''8081'' [], backend ''8082'' [], backend ''8083'' []]"

definition tg_pool3 :: LoadBalancer_tg where
  "tg_pool3 = NewLoadBalancer_tg [\<lparr>URIPath = ''/app1'', Servers = pool3\<rparr>]"

definition flat_pool3 :: LoadBalancer where
  "flat_pool3 = \<lparr>servers = pool3, index = 0\<rparr>"

definition tg_half_down :: LoadBalancer_tg where
  "tg_half_down = NewLoadBalancer_tg
     [\<lparr>URIPath = ''/app1'',
       Servers = [backend ''8081'' ''/health'', backend ''8082'' ''/health'']\<rparr>]"

definition net_six_down :: network where
  "net_six_down k u = (if k < 6 then TransportError else StatusCode 200)"

definition tg_empty_first :: LoadBalancer_tg where
  "tg_empty_first = NewLoadBalancer_tg
     [\<lparr>URIPath = ''/app1'', Servers = []\<rparr>,
      \<lparr>URIPath = ''/app1'', Servers = [backend ''8082'' []]\<rparr>]"

section \<open>Unfolding the loops\<close>

text \<open>
  The two loops defined with a measure unfold only where asked. The retry loop is at
  most three attempts long. The flat loop, started with its index in range, is the walk
  of the specification over the servers rotated to the index.
\<close>

declare isServerHealthy_retry.simps [simp del]
declare ServeHTTP_loop.simps [simp del]

lemma retry_done: "isServerHealthy_retry net s 3 w = (False, w)"
  by (simp add: isServerHealthy_retry.simps [of net s 3 w] maxRetries_def)

lemma retry_step:
  "retry < 3 \<Longrightarrow>
   isServerHealthy_retry net s retry w =
     (if attempt_failed (net (gets w) (String (URL s) @ healthCheckPath s))
      then isServerHealthy_retry net s (Suc retry)
             (w\<lparr>gets := gets w + 1,
                trace := trace w @ [Get (String (URL s) @ healthCheckPath s), Sleep 1]\<rparr>)
      else (True, w\<lparr>gets := gets w + 1,
                     trace := trace w @ [Get (String (URL s) @ healthCheckPath s)]\<rparr>))"
  by (simp add: isServerHealthy_retry.simps [of net s retry w] maxRetries_def
      client_Get_def time_Sleep_def)

lemma retry_0:
  "isServerHealthy_retry net s 0 w =
     (let u = String (URL s) @ healthCheckPath s; n = gets w in
      if \<not> attempt_failed (net n u)
      then (True, w\<lparr>gets := n + 1, trace := trace w @ [Get u]\<rparr>)
      else if \<not> attempt_failed (net (n + 1) u)
      then (True, w\<lparr>gets := n + 2, trace := trace w @ [Get u, Sleep 1, Get u]\<rparr>)
      else if \<not> attempt_failed (net (n + 2) u)
      then (True, w\<lparr>gets := n + 3, trace := trace w @ [Get u, Sleep 1, Get u, Sleep 1, Get u]\<rparr>)
      else (False, w\<lparr>gets := n + 3,
                      trace := trace w @ [Get u, Sleep 1, Get u, Sleep 1, Get u, Sleep 1]\<rparr>))"
  by (simp add: retry_step [of 0] retry_step [of "Suc 0"] retry_step [of "Suc (Suc 0)"]
      retry_done numeral_3_eq_3 [symmetric] Let_def add.commute)

lemma attempt_failed_iff: "attempt_failed res \<longleftrightarrow> res \<noteq> StatusCode 200"
  by (cases res) (simp_all add: StatusOK_def)


lemma loop_refines:
  assumes "c < length (servers lb)" "i \<le> length (servers lb)"
    and "index lb = int ((c + i) mod length (servers lb))"
  shows "ServeHTTP_loop net lb r i w =
     (case spec_dispatch net (map (\<lambda>k. servers lb ! ((c + k) mod length (servers lb)))
                                 [i..<length (servers lb)]) w of
        ((res, k), w') \<Rightarrow>
          (Inr (respond res r),
           lb\<lparr>index := int ((c + i + k) mod length (servers lb))\<rparr>, w'))"
  using assms
proof (induction net lb r i w rule: ServeHTTP_loop.induct)
  case (1 net lb r i w)
  let ?n = "length (servers lb)"
  show ?case
  proof (cases "i < ?n")
    case False
    have a: "ServeHTTP_loop net lb r i w = (Inr unavailable, lb, w)"
      using False by (simp add: ServeHTTP_loop.simps [of net lb r i w])
    have b: "[i..<?n] = []"
      using False by simp
    have c: "lb\<lparr>index := int ((c + i) mod ?n)\<rparr> = lb"
      using "1.prems" by simp
    show ?thesis
      by (simp add: a b c respond_def)
  next
    case True
    let ?s = "servers lb ! ((c + i) mod ?n)"
    let ?lb' = "lb\<lparr>index := (index lb + 1) mod int ?n\<rparr>"
    have pos: "0 < ?n"
      using True by (cases "servers lb") simp_all
    then have "(c + i) mod ?n < ?n"
      by (rule mod_less_divisor)
    then have idx: "0 \<le> index lb" "index lb < int ?n" "nat (index lb) = (c + i) mod ?n"
      using "1.prems" by simp_all
    have idx': "index ?lb' = int ((c + (i + 1)) mod ?n)"
      using "1.prems" True by (simp add: zmod_int mod_simps ac_simps)
    have ne: "servers lb \<noteq> []"
      using pos by simp
    have upt: "[i..<?n] = i # [i + 1..<?n]"
      using True by (simp add: upt_conv_Cons)
    obtain b w' where probe: "isServerHealthy net ?s w = (b, w')"
      by (cases "isServerHealthy net ?s w")
    show ?thesis
    proof (cases b)
      case True
      with probe idx \<open>i < ?n\<close> idx' ne show ?thesis
        by (simp add: ServeHTTP_loop.simps [of net lb r i w] upt respond_def Let_def)
    next
      case False
      have IH: "ServeHTTP_loop net ?lb' r (i + 1) w' =
        (case spec_dispatch net (map (\<lambda>k. servers ?lb' ! ((c + k) mod length (servers ?lb')))
                                 [i + 1..<length (servers ?lb')]) w' of
           ((res, k), w'') \<Rightarrow>
             (Inr (respond res r),
              ?lb'\<lparr>index := int ((c + (i + 1) + k) mod length (servers ?lb'))\<rparr>, w''))"
        using "1.IH" [of "servers lb ! nat (index lb)" ?lb' False w'] probe False idx \<open>i < ?n\<close> "1.prems" idx' ne
        by simp
      show ?thesis
        using probe False idx \<open>i < ?n\<close> IH ne
        by (simp add: ServeHTTP_loop.simps [of net lb r i w] upt Let_def split: prod.splits)
    qed
  qed
qed

lemma rotation_list:
  "c < length xs \<Longrightarrow> map (\<lambda>k. xs ! ((c + k) mod length xs)) [0..<length xs] = rotate c xs"
  by (rule nth_equalityI) (simp_all add: nth_rotate)

lemma ServeHTTP_refines:
  assumes "0 \<le> index lb" "index lb < int (length (servers lb))"
  shows "ServeHTTP net lb r w =
     (case spec_dispatch net (rotate (nat (index lb)) (servers lb)) w of
        ((res, k), w') \<Rightarrow>
          (Inr (respond res r),
           lb\<lparr>index := (index lb + int k) mod int (length (servers lb))\<rparr>, w'))"
proof -
  let ?c = "nat (index lb)"
  have c: "?c < length (servers lb)" "index lb = int ((?c + 0) mod length (servers lb))"
    using assms by simp_all
  have "int ((?c + k) mod length (servers lb)) = (index lb + int k) mod int (length (servers lb))"
    for k
    using assms by (simp add: zmod_int)
  then show ?thesis
    unfolding ServeHTTP_def
    using loop_refines [OF c(1) _ c(2), of net r w] rotation_list [OF c(1)]
    by simp
qed

text \<open>
  In the flat program the index stays in range from one request to the next, and a
  healthy server at the index is forwarded to with the index moved on by one.
\<close>

lemma ServeHTTP_keeps_index:
  assumes "0 \<le> index lb" "index lb < int (length (servers lb))"
  shows "servers (fst (snd (ServeHTTP net lb r w))) = servers lb
    \<and> 0 \<le> index (fst (snd (ServeHTTP net lb r w)))
    \<and> index (fst (snd (ServeHTTP net lb r w))) < int (length (servers lb))"
proof -
  from assms have "0 < int (length (servers lb))"
    by linarith
  then have "0 \<le> (index lb + int k) mod int (length (servers lb))
      \<and> (index lb + int k) mod int (length (servers lb)) < int (length (servers lb))" for k
    by (simp del: of_nat_0_less_iff)
  then show ?thesis
    by (simp add: ServeHTTP_refines [OF assms] split: prod.splits)
qed

lemma ServeHTTP_healthy_advances:
  assumes "0 \<le> index lb" "index lb < int (length (servers lb))"
    and "isServerHealthy net (servers lb ! nat (index lb)) w = (True, w')"
  shows "ServeHTTP net lb r w =
    (Inr (proxy_ServeHTTP (URL (servers lb ! nat (index lb)))
            (rewrite_path (servers lb ! nat (index lb)) r)),
     lb\<lparr>index := (index lb + 1) mod int (length (servers lb))\<rparr>, w')"
proof -
  from assms(1,2) have "servers lb \<noteq> []"
    by auto
  with assms show ?thesis
    by (simp add: ServeHTTP_def ServeHTTP_loop.simps [of net lb r 0 w] Let_def)
qed

lemma spec_dispatch_count: "spec_dispatch net cs w = ((res, k), w') \<Longrightarrow> k \<le> length cs"
  by (induction cs arbitrary: w k) (fastforce split: prod.splits bool.splits)+

lemma spec_dispatch_some:
  "spec_dispatch net cs w = ((Some s, k), w') \<Longrightarrow> s \<in> set cs"
  by (induction cs arbitrary: w k) (fastforce split: prod.splits bool.splits)+

lemma getNextServer_eq:
  "getNextServer g =
     Inr (if Servers g = [] then None else Some (Servers g ! (1 mod length (Servers g))))"
  by (simp add: getNextServer_def Let_def)

lemma getNextServer_mem: "getNextServer g = Inr (Some s) \<Longrightarrow> s \<in> set (Servers g)"
proof -
  assume a: "getNextServer g = Inr (Some s)"
  then have ne: "Servers g \<noteq> []" and s: "s = Servers g ! (1 mod length (Servers g))"
    by (auto simp: getNextServer_eq split: if_splits)
  from ne have "1 mod length (Servers g) < length (Servers g)"
    by (intro mod_less_divisor) simp
  then show ?thesis
    unfolding s by (rule nth_mem)
qed

lemma range_no_panic: "fst (ServeHTTP_range net r gs w) \<noteq> Inl e"
  by (induction gs arbitrary: w)
     (auto simp: getNextServer_eq split: prod.splits bool.splits if_splits)

lemma loop_forward:
  "fst (ServeHTTP_loop net lb r i w) = Inr (proxy_ServeHTTP u r') \<Longrightarrow>
   \<exists>server\<in>set (servers lb). u = URL server \<and> r' = rewrite_path server r"
proof (induction net lb r i w rule: ServeHTTP_loop.induct)
  case (1 net lb r i w)
  let ?n = "length (servers lb)"
  let ?s = "servers lb ! nat (index lb)"
  let ?lb' = "lb\<lparr>index := (index lb + 1) mod int ?n\<rparr>"
  from "1.prems" have i: "i < ?n"
    by (simp add: ServeHTTP_loop.simps [of net lb r i w] unavailable_def split: if_splits)
  with "1.prems" have idx: "0 \<le> index lb \<and> index lb < int ?n"
    by (simp add: ServeHTTP_loop.simps [of net lb r i w] split: if_splits)
  then have "nat (index lb) < ?n"
    by linarith
  then have mem: "?s \<in> set (servers lb)"
    by (rule nth_mem)
  from i have ne: "?n \<noteq> 0"
    by auto
  obtain b w' where probe: "isServerHealthy net ?s w = (b, w')"
    by (cases "isServerHealthy net ?s w")
  show ?case
  proof (cases b)
    case True
    with "1.prems" i idx ne probe have "u = URL ?s \<and> r' = rewrite_path ?s r"
      by (simp add: ServeHTTP_loop.simps [of net lb r i w] Let_def)
    with mem show ?thesis
      by blast
  next
    case False
    with "1.prems" i idx ne probe
    have "fst (ServeHTTP_loop net ?lb' r (i + 1) w') = Inr (proxy_ServeHTTP u r')"
      by (simp add: ServeHTTP_loop.simps [of net lb r i w] Let_def)
    with "1.IH" [of ?s ?lb' False w'] i idx ne probe False show ?thesis
      by simp
  qed
qed

lemma range_forward:
  "fst (ServeHTTP_range net r gs w) = Inr (proxy_ServeHTTP u r') \<Longrightarrow>
   \<exists>g\<in>set gs. URIPath g = URL_Path r \<and>
     (\<exists>server\<in>set (Servers g). u = URL server \<and> r' = rewrite_path server r)"
proof (induction gs arbitrary: w)
  case Nil
  then show ?case
    by (simp add: unavailable_def)
next
  case (Cons g gs)
  show ?case
  proof (cases "URL_Path r = URIPath g")
    case False
    with Cons show ?thesis
      by simp
  next
    case True
    show ?thesis
    proof (cases "getNextServer g")
      case (Inl e)
      with Cons.prems True show ?thesis
        by simp
    next
      case (Inr sel)
      show ?thesis
      proof (cases sel)
        case None
        with Cons Inr True show ?thesis
          by simp
      next
        case (Some server)
        with Inr have mem: "server \<in> set (Servers g)"
          by (simp add: getNextServer_mem)
        obtain b w' where probe: "isServerHealthy net server w = (b, w')"
          by (cases "isServerHealthy net server w")
        show ?thesis
        proof (cases b)
          case True
          with Cons.prems \<open>URL_Path r = URIPath g\<close> Inr Some probe mem show ?thesis
            by auto
        next
          case False
          with Cons.prems \<open>URL_Path r = URIPath g\<close> Inr Some probe
          have "fst (ServeHTTP_range net r gs w') = Inr (proxy_ServeHTTP u r')"
            by simp
          with Cons.IH show ?thesis
            by auto
        qed
      qed
    qed
  qed
qed

lemma range_no_match:
  "\<forall>g\<in>set gs. URL_Path r \<noteq> URIPath g \<Longrightarrow> ServeHTTP_range net r gs w = (Inr unavailable, w)"
  by (induction gs) simp_all

lemma range_forward_split:
  "fst (ServeHTTP_range net r gs w) = Inr (proxy_ServeHTTP u r') \<Longrightarrow>
   \<exists>pre g post s w1. gs = pre @ g # post
     \<and> ServeHTTP_range net r pre w = (Inr unavailable, w1)
     \<and> URL_Path r = URIPath g \<and> getNextServer g = Inr (Some s)
     \<and> fst (isServerHealthy net s w1) \<and> u = URL s"
proof (induction gs arbitrary: w)
  case Nil
  then show ?case
    by (simp add: unavailable_def)
next
  case (Cons g gs)
  have step: ?case
    if run: "fst (ServeHTTP_range net r gs w') = Inr (proxy_ServeHTTP u r')"
      and skip: "\<And>pre. ServeHTTP_range net r (g # pre) w = ServeHTTP_range net r pre w'"
    for w'
  proof -
    from Cons.IH [OF run] obtain pre g' post s w1 where
      "gs = pre @ g' # post" "ServeHTTP_range net r pre w' = (Inr unavailable, w1)"
      "URL_Path r = URIPath g'" "getNextServer g' = Inr (Some s)"
      "fst (isServerHealthy net s w1)" "u = URL s"
      by blast
    then have "g # gs = (g # pre) @ g' # post
      \<and> ServeHTTP_range net r (g # pre) w = (Inr unavailable, w1)
      \<and> URL_Path r = URIPath g' \<and> getNextServer g' = Inr (Some s)
      \<and> fst (isServerHealthy net s w1) \<and> u = URL s"
      using skip by simp
    then show ?thesis
      by blast
  qed
  show ?case
  proof (cases "URL_Path r = URIPath g")
    case False
    with Cons.prems show ?thesis
      by (intro step [of w]) simp_all
  next
    case True
    show ?thesis
    proof (cases "Servers g = []")
      case True
      with Cons.prems \<open>URL_Path r = URIPath g\<close> show ?thesis
        by (intro step [of w]) (simp_all add: getNextServer_eq)
    next
      case False
      let ?s = "Servers g ! (1 mod length (Servers g))"
      from False have sel: "getNextServer g = Inr (Some ?s)"
        by (simp add: getNextServer_eq)
      obtain b w' where probe: "isServerHealthy net ?s w = (b, w')"
        by (cases "isServerHealthy net ?s w")
      show ?thesis
      proof (cases b)
        case False
        with Cons.prems \<open>URL_Path r = URIPath g\<close> sel probe show ?thesis
          by (intro step [of w']) simp_all
      next
        case True
        with Cons.prems \<open>URL_Path r = URIPath g\<close> sel probe
        have "g # gs = [] @ g # gs \<and> ServeHTTP_range net r [] w = (Inr unavailable, w)
          \<and> URL_Path r = URIPath g \<and> getNextServer g = Inr (Some ?s)
          \<and> fst (isServerHealthy net ?s w) \<and> u = URL ?s"
          by simp
        then show ?thesis
          by blast
      qed
    qed
  qed
qed

lemma spec_resolve_unique:
  "distinct (map URIPath (pre @ g # post)) \<Longrightarrow> spec_resolve (URIPath g) (pre @ g # post) = Some g"
  by (induction pre) auto

lemma probed_unhealthy_dispatch:
  "probed_unhealthy net cs w = Some w1 \<Longrightarrow> spec_dispatch net cs w = ((None, length cs), w1)"
  by (induction cs arbitrary: w) (auto split: prod.splits bool.splits)

lemma getNextServer_not_Inl: "getNextServer g \<noteq> Inl e"
  by (simp add: getNextServer_eq)

lemma range_passed_over:
  "probed_unhealthy net (selections (URL_Path r) pre) w = Some w1 \<Longrightarrow>
   ServeHTTP_range net r (pre @ gs) w = ServeHTTP_range net r gs w1"
  by (induction pre arbitrary: w)
     (auto simp: getNextServer_not_Inl
       split: prod.splits bool.splits if_splits sum.splits option.splits)

lemma range_unavailable_passed_over:
  "ServeHTTP_range net r gs w = (Inr unavailable, w1) \<Longrightarrow>
   probed_unhealthy net (selections (URL_Path r) gs) w = Some w1"
  by (induction gs arbitrary: w)
     (auto simp: getNextServer_not_Inl unavailable_def
       split: prod.splits bool.splits if_splits sum.splits option.splits)

lemma range_empty_group:
  "Servers g = [] \<Longrightarrow>
   ServeHTTP_range net r (pre @ g # post) w = ServeHTTP_range net r (pre @ post) w"
  by (induction pre arbitrary: w)
     (auto simp: getNextServer_def split: prod.splits bool.splits sum.splits option.splits)

lemma loop_unhealthy:
  assumes "0 \<le> index lb" "index lb < int (length (servers lb))"
    and "probed_unhealthy net (rotate (nat (index lb)) (servers lb)) w = Some w1"
  shows "ServeHTTP net lb r w = (Inr unavailable, lb, w1)"
proof -
  have "(index lb + int (length (servers lb))) mod int (length (servers lb)) = index lb"
    using assms(1,2) by simp
  then have "lb\<lparr>index := (index lb + int (length (servers lb))) mod int (length (servers lb))\<rparr> = lb"
    by simp
  then show ?thesis
    using probed_unhealthy_dispatch [OF assms(3)]
    by (simp add: ServeHTTP_refines [OF assms(1,2)] respond_def)
qed

lemma net_http_Error_new:
  "net_http_Error msg code new_writer =
     \<lparr>Header = [''Content-Type'' \<mapsto> [''text/plain; charset=utf-8''],
                ''X-Content-Type-Options'' \<mapsto> [''nosniff'']],
      status = Some code, body = msg @ [CHR 0x0A]\<rparr>"
  by (simp add: net_http_Error_def new_writer_def Write_def WriteHeader_def Let_def)

lemmas example_defs =
  flat_main_def tg_main_def NewLoadBalancer_def NewLoadBalancer_tg_def backend_def
  localhost_def world0_def net_up_def net_down_def

lemmas run_defs =
  ServeHTTP_def ServeHTTP_tg_def ServeHTTP_loop.simps isServerHealthy_def retry_0
  getNextServer_eq attempt_failed_iff rewrite_path_def unavailable_def StatusServiceUnavailable_def Let_def

section \<open>Round-robin selection\<close>

text \<open>
  C1. A selection call is to return the backend at the cursor and advance the cursor by
  one modulo the number of backends, so that \<open>n\<close> calls on \<open>n\<close> healthy backends visit
  each of them once and the next call returns to the first. \<^verbatim>\<open>getNextServer\<close> does not
  do so: on a group of three servers without health check path it selects the second
  one, \<^verbatim>\<open>ServeHTTP\<close> forwards to it and nothing is left changed, so that every further
  request is answered in the same way and the first and the third server are never
  visited. The flat \<^verbatim>\<open>ServeHTTP\<close> on the same three servers visits them in turn and
  comes back to the first.
\<close>

theorem getNextServer_repeats_backend:
  "getNextServer \<lparr>URIPath = ''/app1'', Servers = pool3\<rparr> = Inr (Some (backend ''8082'' []))
   \<and> ServeHTTP_tg net_up tg_pool3 \<lparr>URL_Path = ''/app1''\<rparr> world0 =
       (Inr (proxy_ServeHTTP (localhost ''8082'') \<lparr>URL_Path = ''/localhost:8082/app1''\<rparr>), world0)
   \<and> ServeHTTP net_up flat_pool3 \<lparr>URL_Path = ''/app1''\<rparr> world0 =
       (Inr (proxy_ServeHTTP (localhost ''8081'') \<lparr>URL_Path = ''/localhost:8081/app1''\<rparr>),
        flat_pool3\<lparr>index := 1\<rparr>, world0)
   \<and> ServeHTTP net_up (flat_pool3\<lparr>index := 1\<rparr>) \<lparr>URL_Path = ''/app1''\<rparr> world0 =
       (Inr (proxy_ServeHTTP (localhost ''8082'') \<lparr>URL_Path = ''/localhost:8082/app1''\<rparr>),
        flat_pool3\<lparr>index := 2\<rparr>, world0)
   \<and> ServeHTTP net_up (flat_pool3\<lparr>index := 2\<rparr>) \<lparr>URL_Path = ''/app1''\<rparr> world0 =
       (Inr (proxy_ServeHTTP (localhost ''8083'') \<lparr>URL_Path = ''/localhost:8083/app1''\<rparr>),
        flat_pool3\<lparr>index := 0\<rparr>, world0)"
  by (simp add: pool3_def tg_pool3_def flat_pool3_def example_defs run_defs)

text \<open>
  C7. The rotation cursor is to persist across requests, and the advance made by one
  selection is to be seen by the next, in both programs. A target group stores no cursor:
  two requests in a row to the configuration of \<^verbatim>\<open>main\<close>, with every backend answering
  200, are both forwarded to the second server of the group. The flat load balancer on
  the same two servers moves its index from 0 to 1 and back to 0.
\<close>

theorem target_group_has_no_cursor:
  "ServeHTTP_tg net_up tg_main \<lparr>URL_Path = ''/app1''\<rparr> world0 =
     (Inr (proxy_ServeHTTP (localhost ''8082'') \<lparr>URL_Path = ''/localhost:8082/app1''\<rparr>),
      \<lparr>gets = 1, trace = [Get ''http://localhost:8082/health'']\<rparr>)
   \<and> ServeHTTP_tg net_up tg_main \<lparr>URL_Path = ''/app1''\<rparr>
       \<lparr>gets = 1, trace = [Get ''http://localhost:8082/health'']\<rparr> =
     (Inr (proxy_ServeHTTP (localhost ''8082'') \<lparr>URL_Path = ''/localhost:8082/app1''\<rparr>),
      \<lparr>gets = 2, trace = [Get ''http://localhost:8082/health'',
                          Get ''http://localhost:8082/health'']\<rparr>)
   \<and> ServeHTTP net_up flat_main \<lparr>URL_Path = ''/app1''\<rparr> world0 =
     (Inr (proxy_ServeHTTP (localhost ''8081'') \<lparr>URL_Path = ''/localhost:8081/app1''\<rparr>),
      flat_main\<lparr>index := 1\<rparr>, \<lparr>gets = 1, trace = [Get ''http://localhost:8081/health'']\<rparr>)
   \<and> ServeHTTP net_up (flat_main\<lparr>index := 1\<rparr>) \<lparr>URL_Path = ''/app1''\<rparr>
       \<lparr>gets = 1, trace = [Get ''http://localhost:8081/health'']\<rparr> =
     (Inr (proxy_ServeHTTP (localhost ''8082'') \<lparr>URL_Path = ''/localhost:8082/app1''\<rparr>),
      flat_main\<lparr>index := 0\<rparr>,
      \<lparr>gets = 2, trace = [Get ''http://localhost:8081/health'',
                          Get ''http://localhost:8082/health'']\<rparr>)"
  by (simp add: example_defs run_defs)

section \<open>The dispatch loop\<close>

text \<open>
  C2. The dispatcher is to probe up to as many rotation candidates as the pool has
  backends and to answer 503 only after all of them were probed unhealthy. With target
  groups \<^verbatim>\<open>ServeHTTP\<close> probes a single server of the matching group: when the second
  server of a group fails its three attempts the answer is 503, although the first
  server of the group, never probed, answers its health check with 200. The flat
  \<^verbatim>\<open>ServeHTTP\<close>, started at the failing server, goes on to the healthy one and forwards
  to it.
\<close>

theorem target_group_gives_up_early:
  "ServeHTTP_tg net_8081_up tg_half_down \<lparr>URL_Path = ''/app1''\<rparr> world0 =
     (Inr (http_Error ''No healthy backend servers available'' 503),
      \<lparr>gets = 3, trace = [Get ''http://localhost:8082/health'', Sleep 1,
                          Get ''http://localhost:8082/health'', Sleep 1,
                          Get ''http://localhost:8082/health'', Sleep 1]\<rparr>)
   \<and> isServerHealthy net_8081_up (backend ''8081'' ''/health'') world0 =
     (True, \<lparr>gets = 1, trace = [Get ''http://localhost:8081/health'']\<rparr>)
   \<and> ServeHTTP net_8081_up
       \<lparr>servers = [backend ''8081'' ''/health'', backend ''8082'' ''/health''], index = 1\<rparr>
       \<lparr>URL_Path = ''/app1''\<rparr> world0 =
     (Inr (proxy_ServeHTTP (localhost ''8081'') \<lparr>URL_Path = ''/localhost:8081/app1''\<rparr>),
      \<lparr>servers = [backend ''8081'' ''/health'', backend ''8082'' ''/health''], index = 1\<rparr>,
      \<lparr>gets = 4, trace = [Get ''http://localhost:8082/health'', Sleep 1,
                          Get ''http://localhost:8082/health'', Sleep 1,
                          Get ''http://localhost:8082/health'', Sleep 1,
                          Get ''http://localhost:8081/health'']\<rparr>)"
  by (simp add: tg_half_down_def net_8081_up_def example_defs run_defs)

text \<open>
  C3. For a server with a non-empty \<^verbatim>\<open>healthCheckPath\<close> the probe issues at most
  three GETs, all to \<^verbatim>\<open>server.URL.String() + server.healthCheckPath\<close>. It returns
  true right after the first attempt that comes back without transport error and with
  status 200, issuing no further GET, and it returns false exactly when all three
  attempts fail.
\<close>

theorem isServerHealthy_attempts:
  assumes "healthCheckPath server \<noteq> []"
  shows "(let u = String (URL server) @ healthCheckPath server; n = gets w in
          isServerHealthy net server w =
            (if net n u = StatusCode 200
             then (True, w\<lparr>gets := n + 1, trace := trace w @ [Get u]\<rparr>)
             else if net (n + 1) u = StatusCode 200
             then (True, w\<lparr>gets := n + 2, trace := trace w @ [Get u, Sleep 1, Get u]\<rparr>)
             else if net (n + 2) u = StatusCode 200
             then (True, w\<lparr>gets := n + 3,
                           trace := trace w @ [Get u, Sleep 1, Get u, Sleep 1, Get u]\<rparr>)
             else (False, w\<lparr>gets := n + 3,
                           trace := trace w @ [Get u, Sleep 1, Get u, Sleep 1, Get u, Sleep 1]\<rparr>))
          \<and> (\<not> fst (isServerHealthy net server w)
               \<longleftrightarrow> net n u \<noteq> StatusCode 200 \<and> net (n + 1) u \<noteq> StatusCode 200
                   \<and> net (n + 2) u \<noteq> StatusCode 200))"
  using assms by (simp add: isServerHealthy_def retry_0 Let_def attempt_failed_iff)

theorem isServerHealthy_attempts_witness:
  "healthCheckPath (backend ''8081'' ''/health'') \<noteq> []
   \<and> isServerHealthy net_third (backend ''8081'' ''/health'') world0 =
       (True, \<lparr>gets = 3,
               trace = [Get ''http://localhost:8081/health'', Sleep 1,
                        Get ''http://localhost:8081/health'', Sleep 1,
                        Get ''http://localhost:8081/health'']\<rparr>)
   \<and> \<not> fst (isServerHealthy net_down (backend ''8081'' ''/health'') world0)"
  using isServerHealthy_attempts [of "backend ''8081'' ''/health''" world0 net_third]
    isServerHealthy_attempts [of "backend ''8081'' ''/health''" world0 net_down]
  by (simp add: backend_def localhost_def world0_def net_third_def net_down_def Let_def)

text \<open>
  C6. A server with an empty \<^verbatim>\<open>healthCheckPath\<close> is healthy without any GET, whatever
  the network does. So it is forwarded to as soon as the rotation reaches it: in any
  iteration of the flat loop whose index points at it, and in the loop over the target
  groups at a matching group whose selection it is.
\<close>

theorem empty_healthCheckPath_selected:
  "(healthCheckPath server = [] \<longrightarrow> isServerHealthy net server w = (True, w))
   \<and> (i < length (servers lb) \<and> 0 \<le> index lb \<and> index lb < int (length (servers lb))
        \<and> healthCheckPath (servers lb ! nat (index lb)) = [] \<longrightarrow>
      ServeHTTP_loop net lb r i w =
        (Inr (proxy_ServeHTTP (URL (servers lb ! nat (index lb)))
                (rewrite_path (servers lb ! nat (index lb)) r)),
         lb\<lparr>index := (index lb + 1) mod int (length (servers lb))\<rparr>, w))
   \<and> (URL_Path r = URIPath g \<and> getNextServer g = Inr (Some s) \<and> healthCheckPath s = [] \<longrightarrow>
      ServeHTTP_range net r (g # rest) w =
        (Inr (proxy_ServeHTTP (URL s) (rewrite_path s r)), w))"
proof (intro conjI impI)
  show "isServerHealthy net server w = (True, w)" if "healthCheckPath server = []"
    using that by (simp add: isServerHealthy_def)
next
  assume a: "i < length (servers lb) \<and> 0 \<le> index lb \<and> index lb < int (length (servers lb))
    \<and> healthCheckPath (servers lb ! nat (index lb)) = []"
  then have "servers lb \<noteq> []"
    by auto
  with a show "ServeHTTP_loop net lb r i w =
        (Inr (proxy_ServeHTTP (URL (servers lb ! nat (index lb)))
                (rewrite_path (servers lb ! nat (index lb)) r)),
         lb\<lparr>index := (index lb + 1) mod int (length (servers lb))\<rparr>, w)"
    by (simp add: ServeHTTP_loop.simps [of net lb r i w] isServerHealthy_def Let_def)
next
  assume "URL_Path r = URIPath g \<and> getNextServer g = Inr (Some s) \<and> healthCheckPath s = []"
  then show "ServeHTTP_range net r (g # rest) w =
        (Inr (proxy_ServeHTTP (URL s) (rewrite_path s r)), w)"
    by (simp add: isServerHealthy_def)
qed

theorem empty_healthCheckPath_selected_witness:
  "healthCheckPath (backend ''8082'' []) = []
   \<and> isServerHealthy net_down (backend ''8082'' []) world0 = (True, world0)
   \<and> (1::nat) < length (servers (flat_unchecked\<lparr>index := 1\<rparr>))
   \<and> healthCheckPath (servers (flat_unchecked\<lparr>index := 1\<rparr>) ! nat 1) = []
   \<and> ServeHTTP_loop net_down (flat_unchecked\<lparr>index := 1\<rparr>) \<lparr>URL_Path = ''/a''\<rparr> 1 world0 =
       (Inr (proxy_ServeHTTP (localhost ''8082'') \<lparr>URL_Path = ''/localhost:8082/a''\<rparr>),
        flat_unchecked\<lparr>index := 0\<rparr>, world0)
   \<and> getNextServer group_unchecked = Inr (Some (backend ''8082'' []))
   \<and> ServeHTTP_range net_down \<lparr>URL_Path = ''/app1''\<rparr> [group_unchecked] world0 =
       (Inr (proxy_ServeHTTP (localhost ''8082'') \<lparr>URL_Path = ''/localhost:8082/app1''\<rparr>),
        world0)"
  using empty_healthCheckPath_selected [of "backend ''8082'' []" net_down world0 1
      "flat_unchecked\<lparr>index := 1\<rparr>" "\<lparr>URL_Path = ''/a''\<rparr>"]
    empty_healthCheckPath_selected [of _ net_down world0 _ _ "\<lparr>URL_Path = ''/app1''\<rparr>"
      group_unchecked "backend ''8082'' []" "[]"]
  by (simp add: flat_unchecked_def group_unchecked_def example_defs getNextServer_eq
      rewrite_path_def)

section \<open>Responses\<close>

text \<open>
  C4, as amended. When every candidate that is probed is unhealthy, and likewise when
  no target group has the path of the request, the handler answers with the one call
  \<^verbatim>\<open>http.Error(w, "No healthy backend servers available", 503)\<close>, so that the two
  conditions give the same response. The client is sent status 503 and a body that is
  the message followed by a newline, and \<^verbatim>\<open>http.Error\<close> sets two headers on the
  response, \<^verbatim>\<open>Content-Type: text/plain; charset=utf-8\<close> and
  \<^verbatim>\<open>X-Content-Type-Options: nosniff\<close>. The candidates of the flat program are its servers
  rotated to the index, which is taken to be in range unless the list is empty.
\<close>

theorem service_unavailable_response:
  "((servers lb = [] \<or> (0 \<le> index lb \<and> index lb < int (length (servers lb))))
      \<and> probed_unhealthy net (rotate (nat (index lb)) (servers lb)) w = Some w' \<longrightarrow>
        ServeHTTP net lb r w =
          (Inr (http_Error ''No healthy backend servers available'' 503), lb, w'))
   \<and> (probed_unhealthy net (selections (URL_Path r) (targetGroups lb_tg)) w = Some w' \<longrightarrow>
        ServeHTTP_tg net lb_tg r w =
          (Inr (http_Error ''No healthy backend servers available'' 503), w'))
   \<and> ((\<forall>g\<in>set (targetGroups lb_tg). URL_Path r \<noteq> URIPath g) \<longrightarrow>
        ServeHTTP_tg net lb_tg r w =
          (Inr (http_Error ''No healthy backend servers available'' 503), w))
   \<and> (\<exists>rw. response_written (http_Error ''No healthy backend servers available'' 503) = Some rw
        \<and> status rw = Some 503
        \<and> body rw = ''No healthy backend servers available'' @ [CHR 0x0A]
        \<and> dom (Header rw) = {''Content-Type'', ''X-Content-Type-Options''}
        \<and> Header rw ''Content-Type'' = Some [''text/plain; charset=utf-8'']
        \<and> Header rw ''X-Content-Type-Options'' = Some [''nosniff''])"
proof (intro conjI impI)
  assume a: "(servers lb = [] \<or> (0 \<le> index lb \<and> index lb < int (length (servers lb))))
      \<and> probed_unhealthy net (rotate (nat (index lb)) (servers lb)) w = Some w'"
  show "ServeHTTP net lb r w =
          (Inr (http_Error ''No healthy backend servers available'' 503), lb, w')"
  proof (cases "servers lb = []")
    case True
    with a have "w' = w"
      by simp
    with True show ?thesis
      by (simp add: ServeHTTP_def ServeHTTP_loop.simps [of net lb r 0 w] unavailable_def
          StatusServiceUnavailable_def)
  next
    case False
    with a have "0 \<le> index lb" "index lb < int (length (servers lb))"
      "probed_unhealthy net (rotate (nat (index lb)) (servers lb)) w = Some w'"
      by simp_all
    then have "ServeHTTP net lb r w = (Inr unavailable, lb, w')"
      by (rule loop_unhealthy)
    then show ?thesis
      by (simp add: unavailable_def StatusServiceUnavailable_def)
  qed
next
  assume "probed_unhealthy net (selections (URL_Path r) (targetGroups lb_tg)) w = Some w'"
  then have "ServeHTTP_range net r (targetGroups lb_tg @ []) w = ServeHTTP_range net r [] w'"
    by (rule range_passed_over)
  then show "ServeHTTP_tg net lb_tg r w =
          (Inr (http_Error ''No healthy backend servers available'' 503), w')"
    by (simp add: ServeHTTP_tg_def unavailable_def StatusServiceUnavailable_def)
next
  assume "\<forall>g\<in>set (targetGroups lb_tg). URL_Path r \<noteq> URIPath g"
  then show "ServeHTTP_tg net lb_tg r w =
          (Inr (http_Error ''No healthy backend servers available'' 503), w)"
    by (simp add: ServeHTTP_tg_def range_no_match unavailable_def StatusServiceUnavailable_def)
next
  have "dom [''Content-Type'' \<mapsto> [''text/plain; charset=utf-8''],
             ''X-Content-Type-Options'' \<mapsto> [''nosniff'']]
        = {''Content-Type'', ''X-Content-Type-Options''}"
    by auto
  then show "\<exists>rw. response_written (http_Error ''No healthy backend servers available'' 503) = Some rw
        \<and> status rw = Some 503
        \<and> body rw = ''No healthy backend servers available'' @ [CHR 0x0A]
        \<and> dom (Header rw) = {''Content-Type'', ''X-Content-Type-Options''}
        \<and> Header rw ''Content-Type'' = Some [''text/plain; charset=utf-8'']
        \<and> Header rw ''X-Content-Type-Options'' = Some [''nosniff'']"
    by (simp add: net_http_Error_new)
qed

text \<open>
  As first stated, C4 has a body that is exactly the message, and no additional
  headers. On exhaustion the body written ends in a newline and the two headers are set.
\<close>

theorem service_unavailable_response_counterexample:
  "fst (ServeHTTP net_down flat_main \<lparr>URL_Path = ''/app1''\<rparr> world0) =
     Inr (http_Error ''No healthy backend servers available'' 503)
   \<and> response_written (http_Error ''No healthy backend servers available'' 503) =
     Some (net_http_Error ''No healthy backend servers available'' 503 new_writer)
   \<and> body (net_http_Error ''No healthy backend servers available'' 503 new_writer) =
     ''No healthy backend servers available'' @ [CHR 0x0A]
   \<and> body (net_http_Error ''No healthy backend servers available'' 503 new_writer) \<noteq>
     ''No healthy backend servers available''
   \<and> Header (net_http_Error ''No healthy backend servers available'' 503 new_writer)
       ''Content-Type'' = Some [''text/plain; charset=utf-8'']
   \<and> Header (net_http_Error ''No healthy backend servers available'' 503 new_writer)
       ''X-Content-Type-Options'' = Some [''nosniff'']"
  by (simp add: net_http_Error_new example_defs run_defs)

theorem service_unavailable_response_witness:
  "0 \<le> index flat_main \<and> index flat_main < int (length (servers flat_main))
   \<and> probed_unhealthy net_six_down (rotate (nat (index flat_main)) (servers flat_main)) world0 =
       Some \<lparr>gets = 6,
             trace = [Get ''http://localhost:8081/health'', Sleep 1,
                      Get ''http://localhost:8081/health'', Sleep 1,
                      Get ''http://localhost:8081/health'', Sleep 1,
                      Get ''http://localhost:8082/health'', Sleep 1,
                      Get ''http://localhost:8082/health'', Sleep 1,
                      Get ''http://localhost:8082/health'', Sleep 1]\<rparr>
   \<and> fst (ServeHTTP net_six_down flat_main \<lparr>URL_Path = ''/app1''\<rparr> world0) =
       Inr (http_Error ''No healthy backend servers available'' 503)
   \<and> fst (isServerHealthy net_six_down (backend ''8081'' ''/health'')
            (snd (snd (ServeHTTP net_six_down flat_main \<lparr>URL_Path = ''/app1''\<rparr> world0))))
   \<and> selections ''/app1'' (targetGroups tg_main) = [backend ''8082'' ''/health'']
   \<and> probed_unhealthy net_down (selections ''/app1'' (targetGroups tg_main)) world0 =
       Some \<lparr>gets = 3,
             trace = [Get ''http://localhost:8082/health'', Sleep 1,
                      Get ''http://localhost:8082/health'', Sleep 1,
                      Get ''http://localhost:8082/health'', Sleep 1]\<rparr>
   \<and> fst (ServeHTTP_tg net_down tg_main \<lparr>URL_Path = ''/app1''\<rparr> world0) =
       Inr (http_Error ''No healthy backend servers available'' 503)
   \<and> map URIPath (targetGroups tg_main) = [''/app1'', ''/app2'']
   \<and> ServeHTTP_tg net_up tg_main \<lparr>URL_Path = ''/app3''\<rparr> world0 =
       (Inr (http_Error ''No healthy backend servers available'' 503), world0)"
proof -
  let ?w6 = "\<lparr>gets = 6,
             trace = [Get ''http://localhost:8081/health'', Sleep 1,
                      Get ''http://localhost:8081/health'', Sleep 1,
                      Get ''http://localhost:8081/health'', Sleep 1,
                      Get ''http://localhost:8082/health'', Sleep 1,
                      Get ''http://localhost:8082/health'', Sleep 1,
                      Get ''http://localhost:8082/health'', Sleep 1]\<rparr>"
  let ?w3 = "\<lparr>gets = 3,
             trace = [Get ''http://localhost:8082/health'', Sleep 1,
                      Get ''http://localhost:8082/health'', Sleep 1,
                      Get ''http://localhost:8082/health'', Sleep 1]\<rparr>"
  have h1: "0 \<le> index flat_main \<and> index flat_main < int (length (servers flat_main))"
    by (simp add: example_defs)
  have h2: "probed_unhealthy net_six_down (rotate (nat (index flat_main)) (servers flat_main)) world0
      = Some ?w6"
    by (simp add: example_defs net_six_down_def isServerHealthy_def retry_0 Let_def
        attempt_failed_iff rotate_def)
  have h3: "selections ''/app1'' (targetGroups tg_main) = [backend ''8082'' ''/health'']"
    by (simp add: example_defs getNextServer_eq)
  have h4: "probed_unhealthy net_down (selections ''/app1'' (targetGroups tg_main)) world0 = Some ?w3"
    unfolding h3
    by (simp add: example_defs isServerHealthy_def retry_0 Let_def attempt_failed_iff)
  have h5: "\<forall>g\<in>set (targetGroups tg_main). URL_Path \<lparr>URL_Path = ''/app3''\<rparr> \<noteq> URIPath g"
    "map URIPath (targetGroups tg_main) = [''/app1'', ''/app2'']"
    by (simp_all add: example_defs)
  have h6: "fst (isServerHealthy net_six_down (backend ''8081'' ''/health'') ?w6)"
    by (simp add: example_defs net_six_down_def isServerHealthy_def retry_0 Let_def
        attempt_failed_iff)
  show ?thesis
    using h1 h2 h3 h4 h5 h6
      service_unavailable_response [where lb = flat_main and net = net_six_down
        and r = "\<lparr>URL_Path = ''/app1''\<rparr>" and w = world0 and w' = ?w6]
      service_unavailable_response [where lb_tg = tg_main and net = net_down
        and r = "\<lparr>URL_Path = ''/app1''\<rparr>" and w = world0 and w' = ?w3]
      service_unavailable_response [where lb_tg = tg_main and net = net_up
        and r = "\<lparr>URL_Path = ''/app3''\<rparr>" and w = world0]
    by simp
qed

text \<open>
  C9. Whenever a request is forwarded, the proxy is the one built for the URL of a
  server of the pool, and the request handed to it is the incoming one with its path
  \<open>P\<close> replaced by \<open>''/'' @ Host @ P\<close>, where \<open>Host\<close> is the host of that URL; the same
  holds in both programs.
\<close>

theorem forwarding_rewrites_path:
  "(fst (ServeHTTP net lb r w) = Inr (proxy_ServeHTTP u r') \<longrightarrow>
      (\<exists>server\<in>set (servers lb). u = URL server) \<and>
      r' = r\<lparr>URL_Path := ''/'' @ Host u @ URL_Path r\<rparr>)
   \<and> (fst (ServeHTTP_tg net lb_tg r w) = Inr (proxy_ServeHTTP u r') \<longrightarrow>
      (\<exists>g\<in>set (targetGroups lb_tg). \<exists>server\<in>set (Servers g). u = URL server) \<and>
      r' = r\<lparr>URL_Path := ''/'' @ Host u @ URL_Path r\<rparr>)"
proof (intro conjI impI)
  assume "fst (ServeHTTP net lb r w) = Inr (proxy_ServeHTTP u r')"
  then obtain server where s: "server \<in> set (servers lb)" "u = URL server"
      "r' = rewrite_path server r"
    unfolding ServeHTTP_def by (blast dest: loop_forward)
  from s show "\<exists>server\<in>set (servers lb). u = URL server"
    by blast
  from s show "r' = r\<lparr>URL_Path := ''/'' @ Host u @ URL_Path r\<rparr>"
    by (simp add: rewrite_path_def)
next
  assume "fst (ServeHTTP_tg net lb_tg r w) = Inr (proxy_ServeHTTP u r')"
  then obtain g server where s: "g \<in> set (targetGroups lb_tg)" "server \<in> set (Servers g)"
      "u = URL server" "r' = rewrite_path server r"
    unfolding ServeHTTP_tg_def by (blast dest: range_forward)
  from s show "\<exists>g\<in>set (targetGroups lb_tg). \<exists>server\<in>set (Servers g). u = URL server"
    by blast
  from s show "r' = r\<lparr>URL_Path := ''/'' @ Host u @ URL_Path r\<rparr>"
    by (simp add: rewrite_path_def)
qed

theorem forwarding_rewrites_path_witness:
  "fst (ServeHTTP net_up flat_main \<lparr>URL_Path = ''/app1''\<rparr> world0) =
     Inr (proxy_ServeHTTP (localhost ''8081'') \<lparr>URL_Path = ''/localhost:8081/app1''\<rparr>)
   \<and> (\<exists>server\<in>set (servers flat_main). localhost ''8081'' = URL server)
   \<and> fst (ServeHTTP_tg net_up tg_main \<lparr>URL_Path = ''/app2''\<rparr> world0) =
     Inr (proxy_ServeHTTP (localhost ''8084'') \<lparr>URL_Path = ''/localhost:8084/app2''\<rparr>)
   \<and> (\<exists>g\<in>set (targetGroups tg_main). \<exists>server\<in>set (Servers g). localhost ''8084'' = URL server)"
proof -
  have a: "fst (ServeHTTP net_up flat_main \<lparr>URL_Path = ''/app1''\<rparr> world0) =
     Inr (proxy_ServeHTTP (localhost ''8081'') \<lparr>URL_Path = ''/localhost:8081/app1''\<rparr>)"
    by (simp add: example_defs run_defs)
  have b: "fst (ServeHTTP_tg net_up tg_main \<lparr>URL_Path = ''/app2''\<rparr> world0) =
     Inr (proxy_ServeHTTP (localhost ''8084'') \<lparr>URL_Path = ''/localhost:8084/app2''\<rparr>)"
    by (simp add: example_defs run_defs)
  show ?thesis
    using a b
      forwarding_rewrites_path [of net_up flat_main "\<lparr>URL_Path = ''/app1''\<rparr>" world0
        "localhost ''8081''" "\<lparr>URL_Path = ''/localhost:8081/app1''\<rparr>"]
      forwarding_rewrites_path [of net_up _ "\<lparr>URL_Path = ''/app2''\<rparr>" world0
        "localhost ''8084''" "\<lparr>URL_Path = ''/localhost:8084/app2''\<rparr>" tg_main]
    by blast
qed

text \<open>
  C10, as amended. An empty list of backends does not crash the handler. The flat loop
  runs no iteration, whatever the index, so that neither the indexing nor the remainder
  is evaluated, and the answer is the 503 response. \<^verbatim>\<open>getNextServer\<close> returns \<^verbatim>\<open>nil\<close>
  for a group without servers, and the handler passes such a group over as if it were
  not configured and never panics: the answer is the 503 response when every group with
  the path of the request is without servers, and otherwise what the remaining groups
  give.
\<close>

theorem empty_pool_no_crash:
  "(servers lb = [] \<longrightarrow> ServeHTTP net lb r w = (Inr unavailable, lb, w))
   \<and> (Servers g = [] \<longrightarrow> getNextServer g = Inr None)
   \<and> (targetGroups lb_tg = pre @ g # post \<and> Servers g = [] \<longrightarrow>
        ServeHTTP_tg net lb_tg r w = ServeHTTP_tg net (lb_tg\<lparr>targetGroups := pre @ post\<rparr>) r w)
   \<and> ((\<forall>g\<in>set (targetGroups lb_tg). URL_Path r = URIPath g \<longrightarrow> Servers g = []) \<longrightarrow>
        ServeHTTP_tg net lb_tg r w = (Inr unavailable, w))
   \<and> fst (ServeHTTP_tg net lb_tg r w) \<noteq> Inl e"
proof (intro conjI impI)
  show "ServeHTTP net lb r w = (Inr unavailable, lb, w)" if "servers lb = []"
    using that by (simp add: ServeHTTP_def ServeHTTP_loop.simps [of net lb r 0 w])
  show "getNextServer g = Inr None" if "Servers g = []"
    using that by (simp add: getNextServer_def)
  show "ServeHTTP_tg net lb_tg r w = ServeHTTP_tg net (lb_tg\<lparr>targetGroups := pre @ post\<rparr>) r w"
    if "targetGroups lb_tg = pre @ g # post \<and> Servers g = []"
    using that by (simp add: ServeHTTP_tg_def range_empty_group)
  show "fst (ServeHTTP_tg net lb_tg r w) \<noteq> Inl e"
    by (simp add: ServeHTTP_tg_def range_no_panic)
  have "ServeHTTP_range net r gs w = (Inr unavailable, w)"
    if "\<forall>g\<in>set gs. URL_Path r = URIPath g \<longrightarrow> Servers g = []" for gs
    using that by (induction gs) (simp_all add: getNextServer_def)
  then show "ServeHTTP_tg net lb_tg r w = (Inr unavailable, w)"
    if "\<forall>g\<in>set (targetGroups lb_tg). URL_Path r = URIPath g \<longrightarrow> Servers g = []"
    using that by (simp add: ServeHTTP_tg_def)
qed

text \<open>
  As first stated, C10 has the client receive the 503 response whenever the group is
  empty. With an empty group for \<^verbatim>\<open>/app1\<close> followed by a second group for \<^verbatim>\<open>/app1\<close>
  whose server has no health check path, the request is forwarded to that server.
\<close>

theorem empty_pool_no_crash_counterexample:
  "getNextServer \<lparr>URIPath = ''/app1'', Servers = []\<rparr> = Inr None
   \<and> targetGroups tg_empty_first =
       [\<lparr>URIPath = ''/app1'', Servers = []\<rparr>,
        \<lparr>URIPath = ''/app1'', Servers = [backend ''8082'' []]\<rparr>]
   \<and> ServeHTTP_tg net_down tg_empty_first \<lparr>URL_Path = ''/app1''\<rparr> world0 =
       (Inr (proxy_ServeHTTP (localhost ''8082'') \<lparr>URL_Path = ''/localhost:8082/app1''\<rparr>),
        world0)
   \<and> fst (ServeHTTP_tg net_down tg_empty_first \<lparr>URL_Path = ''/app1''\<rparr> world0) \<noteq>
       Inr (http_Error ''No healthy backend servers available'' 503)"
  by (simp add: tg_empty_first_def example_defs run_defs)

theorem empty_pool_no_crash_witness:
  "servers (NewLoadBalancer [] ''/health'') = []
   \<and> ServeHTTP net_up (NewLoadBalancer [] ''/health'') \<lparr>URL_Path = ''/''\<rparr> world0 =
       (Inr (http_Error ''No healthy backend servers available'' 503),
        NewLoadBalancer [] ''/health'', world0)
   \<and> getNextServer \<lparr>URIPath = ''/app1'', Servers = []\<rparr> = Inr None
   \<and> targetGroups tg_empty_first =
       [] @ \<lparr>URIPath = ''/app1'', Servers = []\<rparr> # [\<lparr>URIPath = ''/app1'', Servers = [backend ''8082'' []]\<rparr>]
   \<and> ServeHTTP_tg net_down tg_empty_first \<lparr>URL_Path = ''/app1''\<rparr> world0 =
       ServeHTTP_tg net_down
         (tg_empty_first\<lparr>targetGroups := [] @ [\<lparr>URIPath = ''/app1'', Servers = [backend ''8082'' []]\<rparr>]\<rparr>)
         \<lparr>URL_Path = ''/app1''\<rparr> world0
   \<and> targetGroups tg_empty =
       [\<lparr>URIPath = ''/app1'', Servers = []\<rparr>,
        \<lparr>URIPath = ''/app2'', Servers = [backend ''8083'' [], backend ''8084'' []]\<rparr>]
   \<and> ServeHTTP_tg net_up tg_empty \<lparr>URL_Path = ''/app1''\<rparr> world0 =
       (Inr (http_Error ''No healthy backend servers available'' 503), world0)"
proof -
  have h1: "targetGroups tg_empty_first =
       [] @ \<lparr>URIPath = ''/app1'', Servers = []\<rparr> # [\<lparr>URIPath = ''/app1'', Servers = [backend ''8082'' []]\<rparr>]"
    by (simp add: tg_empty_first_def example_defs)
  have h2: "\<forall>g\<in>set (targetGroups tg_empty).
      URL_Path \<lparr>URL_Path = ''/app1''\<rparr> = URIPath g \<longrightarrow> Servers g = []"
    by (simp add: tg_empty_def example_defs)
  have h3: "targetGroups tg_empty =
       [\<lparr>URIPath = ''/app1'', Servers = []\<rparr>,
        \<lparr>URIPath = ''/app2'', Servers = [backend ''8083'' [], backend ''8084'' []]\<rparr>]"
    "servers (NewLoadBalancer [] ''/health'') = []"
    by (simp_all add: tg_empty_def example_defs)
  show ?thesis
    using h1 h2 h3
      empty_pool_no_crash [where lb = "NewLoadBalancer [] ''/health''" and net = net_up
        and r = "\<lparr>URL_Path = ''/''\<rparr>" and w = world0
        and g = "\<lparr>URIPath = ''/app1'', Servers = []\<rparr>"]
      empty_pool_no_crash [where lb_tg = tg_empty_first and net = net_down
        and r = "\<lparr>URL_Path = ''/app1''\<rparr>" and w = world0 and pre = "[]"
        and g = "\<lparr>URIPath = ''/app1'', Servers = []\<rparr>"
        and post = "[\<lparr>URIPath = ''/app1'', Servers = [backend ''8082'' []]\<rparr>]"]
      empty_pool_no_crash [where lb_tg = tg_empty and net = net_up
        and r = "\<lparr>URL_Path = ''/app1''\<rparr>" and w = world0]
    by (simp add: unavailable_def StatusServiceUnavailable_def)
qed

section \<open>Routing by path\<close>

text \<open>
  C5, as amended. The handler compares the path of the request with the path of each
  target group by equality of strings, in configuration order. A group with another
  path is passed over, and so is a group with the path whose pool is empty or whose
  selected server is probed unhealthy: the handler goes on with the groups after it.
  The request is served by the first group with the path whose selected server is
  probed healthy, all selections before it having been probed unhealthy. A request is
  only ever forwarded to a server of a group that has its path, and a request whose path
  no group has is answered with the 503 response of an exhausted pool.
\<close>

theorem routing_by_exact_path:
  "(targetGroups lb = g # rest \<and> URL_Path r \<noteq> URIPath g \<longrightarrow>
      ServeHTTP_tg net lb r w = ServeHTTP_tg net (lb\<lparr>targetGroups := rest\<rparr>) r w)
   \<and> (targetGroups lb = g # rest \<and> URL_Path r = URIPath g \<and> Servers g = [] \<longrightarrow>
      ServeHTTP_tg net lb r w = ServeHTTP_tg net (lb\<lparr>targetGroups := rest\<rparr>) r w)
   \<and> (targetGroups lb = g # rest \<and> URL_Path r = URIPath g \<and> getNextServer g = Inr (Some s)
        \<and> isServerHealthy net s w = (False, w1) \<longrightarrow>
      ServeHTTP_tg net lb r w = ServeHTTP_tg net (lb\<lparr>targetGroups := rest\<rparr>) r w1)
   \<and> (targetGroups lb = pre @ g # post
        \<and> probed_unhealthy net (selections (URL_Path r) pre) w = Some w1
        \<and> URL_Path r = URIPath g \<and> getNextServer g = Inr (Some s)
        \<and> isServerHealthy net s w1 = (True, w2) \<longrightarrow>
      ServeHTTP_tg net lb r w = (Inr (proxy_ServeHTTP (URL s) (rewrite_path s r)), w2))
   \<and> (fst (ServeHTTP_tg net lb r w) = Inr (proxy_ServeHTTP u r') \<longrightarrow>
      (\<exists>g\<in>set (targetGroups lb). URIPath g = URL_Path r \<and> u \<in> URL ` set (Servers g)))
   \<and> ((\<forall>g\<in>set (targetGroups lb). URL_Path r \<noteq> URIPath g) \<longrightarrow>
      ServeHTTP_tg net lb r w = (Inr unavailable, w))"
proof (intro conjI impI)
  assume "targetGroups lb = g # rest \<and> URL_Path r \<noteq> URIPath g"
  then show "ServeHTTP_tg net lb r w = ServeHTTP_tg net (lb\<lparr>targetGroups := rest\<rparr>) r w"
    by (simp add: ServeHTTP_tg_def)
next
  assume "targetGroups lb = g # rest \<and> URL_Path r = URIPath g \<and> Servers g = []"
  then show "ServeHTTP_tg net lb r w = ServeHTTP_tg net (lb\<lparr>targetGroups := rest\<rparr>) r w"
    by (simp add: ServeHTTP_tg_def getNextServer_def)
next
  assume "targetGroups lb = g # rest \<and> URL_Path r = URIPath g \<and> getNextServer g = Inr (Some s)
        \<and> isServerHealthy net s w = (False, w1)"
  then show "ServeHTTP_tg net lb r w = ServeHTTP_tg net (lb\<lparr>targetGroups := rest\<rparr>) r w1"
    by (simp add: ServeHTTP_tg_def)
next
  assume a: "targetGroups lb = pre @ g # post
        \<and> probed_unhealthy net (selections (URL_Path r) pre) w = Some w1
        \<and> URL_Path r = URIPath g \<and> getNextServer g = Inr (Some s)
        \<and> isServerHealthy net s w1 = (True, w2)"
  then have "probed_unhealthy net (selections (URL_Path r) pre) w = Some w1"
    by blast
  then have "ServeHTTP_range net r (pre @ g # post) w = ServeHTTP_range net r (g # post) w1"
    by (rule range_passed_over)
  with a show "ServeHTTP_tg net lb r w = (Inr (proxy_ServeHTTP (URL s) (rewrite_path s r)), w2)"
    by (simp add: ServeHTTP_tg_def)
next
  assume "fst (ServeHTTP_tg net lb r w) = Inr (proxy_ServeHTTP u r')"
  then show "\<exists>g\<in>set (targetGroups lb). URIPath g = URL_Path r \<and> u \<in> URL ` set (Servers g)"
    unfolding ServeHTTP_tg_def by (blast dest: range_forward)
next
  assume "\<forall>g\<in>set (targetGroups lb). URL_Path r \<noteq> URIPath g"
  then show "ServeHTTP_tg net lb r w = (Inr unavailable, w)"
    by (simp add: ServeHTTP_tg_def range_no_match)
qed

text \<open>
  As first stated, C5 has the request served from the pool of the first group with the
  path. With two groups for \<^verbatim>\<open>/app1\<close>, the only server of the first being down, the
  request is forwarded to the server of the second group.
\<close>

theorem routing_by_exact_path_counterexample:
  "fst (ServeHTTP_tg net_down tg_fallback \<lparr>URL_Path = ''/app1''\<rparr> world0) =
     Inr (proxy_ServeHTTP (localhost ''8082'') \<lparr>URL_Path = ''/localhost:8082/app1''\<rparr>)
   \<and> spec_resolve ''/app1'' (targetGroups tg_fallback) =
     Some \<lparr>URIPath = ''/app1'', Servers = [backend ''8081'' ''/health'']\<rparr>
   \<and> localhost ''8082'' \<notin> URL ` set [backend ''8081'' ''/health'']"
  by (simp add: tg_fallback_def example_defs run_defs)

theorem routing_by_exact_path_witness:
  "targetGroups tg_fallback =
     [\<lparr>URIPath = ''/app2'', Servers = [backend ''8083'' ''/health'', backend ''8084'' ''/health'']\<rparr>,
      \<lparr>URIPath = ''/app1'', Servers = [backend ''8081'' ''/health'']\<rparr>,
      \<lparr>URIPath = ''/app1'', Servers = [backend ''8082'' []]\<rparr>]
   \<and> ServeHTTP_tg net_down tg_fallback \<lparr>URL_Path = ''/app1''\<rparr> world0 =
       ServeHTTP_tg net_down
         (tg_fallback\<lparr>targetGroups :=
            [\<lparr>URIPath = ''/app1'', Servers = [backend ''8081'' ''/health'']\<rparr>,
             \<lparr>URIPath = ''/app1'', Servers = [backend ''8082'' []]\<rparr>]\<rparr>)
         \<lparr>URL_Path = ''/app1''\<rparr> world0
   \<and> ServeHTTP_tg net_down tg_empty_first \<lparr>URL_Path = ''/app1''\<rparr> world0 =
       ServeHTTP_tg net_down
         (tg_empty_first\<lparr>targetGroups := [\<lparr>URIPath = ''/app1'', Servers = [backend ''8082'' []]\<rparr>]\<rparr>)
         \<lparr>URL_Path = ''/app1''\<rparr> world0
   \<and> isServerHealthy net_down (backend ''8081'' ''/health'') world0 =
       (False, \<lparr>gets = 3,
                trace = [Get ''http://localhost:8081/health'', Sleep 1,
                         Get ''http://localhost:8081/health'', Sleep 1,
                         Get ''http://localhost:8081/health'', Sleep 1]\<rparr>)
   \<and> ServeHTTP_tg net_down
         (tg_fallback\<lparr>targetGroups :=
            [\<lparr>URIPath = ''/app1'', Servers = [backend ''8081'' ''/health'']\<rparr>,
             \<lparr>URIPath = ''/app1'', Servers = [backend ''8082'' []]\<rparr>]\<rparr>)
         \<lparr>URL_Path = ''/app1''\<rparr> world0 =
       ServeHTTP_tg net_down
         (tg_fallback\<lparr>targetGroups := [\<lparr>URIPath = ''/app1'', Servers = [backend ''8082'' []]\<rparr>]\<rparr>)
         \<lparr>URL_Path = ''/app1''\<rparr>
         \<lparr>gets = 3,
          trace = [Get ''http://localhost:8081/health'', Sleep 1,
                   Get ''http://localhost:8081/health'', Sleep 1,
                   Get ''http://localhost:8081/health'', Sleep 1]\<rparr>
   \<and> ServeHTTP_tg net_down tg_fallback \<lparr>URL_Path = ''/app1''\<rparr> world0 =
       (Inr (proxy_ServeHTTP (localhost ''8082'') \<lparr>URL_Path = ''/localhost:8082/app1''\<rparr>),
        \<lparr>gets = 3,
         trace = [Get ''http://localhost:8081/health'', Sleep 1,
                  Get ''http://localhost:8081/health'', Sleep 1,
                  Get ''http://localhost:8081/health'', Sleep 1]\<rparr>)
   \<and> (\<exists>g\<in>set (targetGroups tg_fallback). URIPath g = ''/app1''
         \<and> localhost ''8082'' \<in> URL ` set (Servers g))
   \<and> ServeHTTP_tg net_down tg_fallback \<lparr>URL_Path = ''/app3''\<rparr> world0 =
       (Inr (http_Error ''No healthy backend servers available'' 503), world0)"
proof -
  let ?r = "\<lparr>URL_Path = ''/app1''\<rparr>"
  let ?gA = "\<lparr>URIPath = ''/app2'',
              Servers = [backend ''8083'' ''/health'', backend ''8084'' ''/health'']\<rparr>"
  let ?gB = "\<lparr>URIPath = ''/app1'', Servers = [backend ''8081'' ''/health'']\<rparr>"
  let ?gC = "\<lparr>URIPath = ''/app1'', Servers = [backend ''8082'' []]\<rparr>"
  let ?gE = "\<lparr>URIPath = ''/app1'', Servers = []\<rparr>"
  let ?w3 = "\<lparr>gets = 3,
              trace = [Get ''http://localhost:8081/health'', Sleep 1,
                       Get ''http://localhost:8081/health'', Sleep 1,
                       Get ''http://localhost:8081/health'', Sleep 1]\<rparr>"
  have g: "targetGroups tg_fallback = [?gA, ?gB, ?gC]" "targetGroups tg_empty_first = [?gE, ?gC]"
    by (simp_all add: tg_fallback_def tg_empty_first_def example_defs)
  have g': "targetGroups tg_fallback = [?gA, ?gB] @ ?gC # []"
    "targetGroups (tg_fallback\<lparr>targetGroups := [?gB, ?gC]\<rparr>) = ?gB # [?gC]"
    "targetGroups tg_fallback = ?gA # [?gB, ?gC]" "targetGroups tg_empty_first = ?gE # [?gC]"
    by (simp_all add: g)
  have selB: "getNextServer ?gB = Inr (Some (backend ''8081'' ''/health''))"
    and selC: "getNextServer ?gC = Inr (Some (backend ''8082'' []))"
    by (simp_all add: getNextServer_eq)
  have p1: "isServerHealthy net_down (backend ''8081'' ''/health'') world0 = (False, ?w3)"
    by (simp add: example_defs isServerHealthy_def retry_0 Let_def attempt_failed_iff)
  have p2: "isServerHealthy net_down (backend ''8082'' []) ?w3 = (True, ?w3)"
    by (simp add: example_defs isServerHealthy_def)
  have pre: "probed_unhealthy net_down (selections (URL_Path ?r) [?gA, ?gB]) world0 = Some ?w3"
    by (simp add: selB p1)
  have none: "\<forall>g\<in>set (targetGroups tg_fallback). URL_Path \<lparr>URL_Path = ''/app3''\<rparr> \<noteq> URIPath g"
    by (simp add: g)
  have e: "rewrite_path (backend ''8082'' []) ?r = \<lparr>URL_Path = ''/localhost:8082/app1''\<rparr>"
    "URL (backend ''8082'' []) = localhost ''8082''"
    by (simp_all add: rewrite_path_def example_defs)
  have fwd: "ServeHTTP_tg net_down tg_fallback ?r world0 =
       (Inr (proxy_ServeHTTP (localhost ''8082'') \<lparr>URL_Path = ''/localhost:8082/app1''\<rparr>), ?w3)"
    using routing_by_exact_path [where lb = tg_fallback and pre = "[?gA, ?gB]" and g = ?gC
        and post = "[]" and net = net_down and r = ?r and w = world0 and ?w1.0 = ?w3
        and s = "backend ''8082'' []" and ?w2.0 = ?w3]
      g'(1) pre selC p2 e
    by simp
  show ?thesis
    using g(1) p1 fwd
      routing_by_exact_path [where lb = tg_fallback and g = ?gA and rest = "[?gB, ?gC]"
        and net = net_down and r = ?r and w = world0] g'(3)
      routing_by_exact_path [where lb = tg_empty_first and g = ?gE and rest = "[?gC]"
        and net = net_down and r = ?r and w = world0] g'(4)
      routing_by_exact_path [where lb = "tg_fallback\<lparr>targetGroups := [?gB, ?gC]\<rparr>" and g = ?gB
        and rest = "[?gC]" and net = net_down and r = ?r and w = world0 and ?w1.0 = ?w3
        and s = "backend ''8081'' ''/health''"] g'(2) selB
      routing_by_exact_path [where lb = tg_fallback and net = net_down and r = ?r and w = world0
        and u = "localhost ''8082''" and r' = "\<lparr>URL_Path = ''/localhost:8082/app1''\<rparr>"]
      routing_by_exact_path [where lb = tg_fallback and net = net_down
        and r = "\<lparr>URL_Path = ''/app3''\<rparr>" and w = world0] none
    by (simp add: unavailable_def StatusServiceUnavailable_def)
qed

text \<open>
  C8, as amended. A request is forwarded to at most one server, and that server is the
  selection of the first target group, in configuration order, that has the path of the
  request and whose selected server is probed healthy: the selections of the groups
  before it that have the path were each probed unhealthy. When no two target groups
  share a path this group is the first one whose path equals the path of the request.
\<close>

theorem forwarded_backend_route:
  "(fst (ServeHTTP_tg net lb r w) = Inr (proxy_ServeHTTP u r') \<longrightarrow>
      (\<exists>pre g post s w1. targetGroups lb = pre @ g # post
         \<and> probed_unhealthy net (selections (URL_Path r) pre) w = Some w1
         \<and> URL_Path r = URIPath g \<and> getNextServer g = Inr (Some s) \<and> s \<in> set (Servers g)
         \<and> fst (isServerHealthy net s w1) \<and> u = URL s))
   \<and> (distinct (map URIPath (targetGroups lb))
        \<and> fst (ServeHTTP_tg net lb r w) = Inr (proxy_ServeHTTP u r') \<longrightarrow>
      (\<exists>g s. spec_resolve (URL_Path r) (targetGroups lb) = Some g
         \<and> s \<in> set (Servers g) \<and> u = URL s))"
proof (intro conjI impI)
  assume "fst (ServeHTTP_tg net lb r w) = Inr (proxy_ServeHTTP u r')"
  then obtain pre g post s w1 where
    split: "targetGroups lb = pre @ g # post"
      "ServeHTTP_range net r pre w = (Inr unavailable, w1)"
      "URL_Path r = URIPath g" "getNextServer g = Inr (Some s)"
      "fst (isServerHealthy net s w1)" "u = URL s"
    unfolding ServeHTTP_tg_def by (blast dest: range_forward_split)
  moreover from split have "s \<in> set (Servers g)"
    by (simp add: getNextServer_mem)
  moreover from split(2) have "probed_unhealthy net (selections (URL_Path r) pre) w = Some w1"
    by (rule range_unavailable_passed_over)
  ultimately show "\<exists>pre g post s w1. targetGroups lb = pre @ g # post
         \<and> probed_unhealthy net (selections (URL_Path r) pre) w = Some w1
         \<and> URL_Path r = URIPath g \<and> getNextServer g = Inr (Some s) \<and> s \<in> set (Servers g)
         \<and> fst (isServerHealthy net s w1) \<and> u = URL s"
    by blast
next
  assume a: "distinct (map URIPath (targetGroups lb))
        \<and> fst (ServeHTTP_tg net lb r w) = Inr (proxy_ServeHTTP u r')"
  then obtain pre g post s where
    split: "targetGroups lb = pre @ g # post" "URL_Path r = URIPath g"
      "getNextServer g = Inr (Some s)" "u = URL s"
    unfolding ServeHTTP_tg_def by (blast dest: range_forward_split)
  from a split have "spec_resolve (URL_Path r) (targetGroups lb) = Some g"
    by (simp add: spec_resolve_unique del: distinct_append map_append)
  with split show "\<exists>g s. spec_resolve (URL_Path r) (targetGroups lb) = Some g
         \<and> s \<in> set (Servers g) \<and> u = URL s"
    by (blast intro: getNextServer_mem)
qed

text \<open>
  As first stated, C8 places the server in the pool of the first group with the path of
  the request. With two groups for \<^verbatim>\<open>/app1\<close> and only port 8084 answering, the server
  selected from the first group fails its probe and the request is forwarded to a
  server of the second group, which the first group does not hold.
\<close>

theorem forwarded_backend_route_counterexample:
  "fst (ServeHTTP_tg net_8084_up tg_shared_path \<lparr>URL_Path = ''/app1''\<rparr> world0) =
     Inr (proxy_ServeHTTP (localhost ''8084'') \<lparr>URL_Path = ''/localhost:8084/app1''\<rparr>)
   \<and> spec_resolve ''/app1'' (targetGroups tg_shared_path) =
     Some \<lparr>URIPath = ''/app1'',
           Servers = [backend ''8081'' ''/health'', backend ''8082'' ''/health'']\<rparr>
   \<and> localhost ''8084'' \<notin> URL ` set [backend ''8081'' ''/health'', backend ''8082'' ''/health'']"
  by (simp add: tg_shared_path_def net_8084_up_def example_defs run_defs)

theorem forwarded_backend_route_witness:
  "fst (ServeHTTP_tg net_8084_up tg_shared_path \<lparr>URL_Path = ''/app1''\<rparr> world0) =
     Inr (proxy_ServeHTTP (localhost ''8084'') \<lparr>URL_Path = ''/localhost:8084/app1''\<rparr>)
   \<and> (\<exists>pre g post s w1. targetGroups tg_shared_path = pre @ g # post
         \<and> probed_unhealthy net_8084_up (selections (URL_Path \<lparr>URL_Path = ''/app1''\<rparr>) pre) world0
             = Some w1
         \<and> URL_Path \<lparr>URL_Path = ''/app1''\<rparr> = URIPath g
         \<and> getNextServer g = Inr (Some s) \<and> s \<in> set (Servers g)
         \<and> fst (isServerHealthy net_8084_up s w1) \<and> localhost ''8084'' = URL s)
   \<and> distinct (map URIPath (targetGroups tg_main))
   \<and> fst (ServeHTTP_tg net_up tg_main \<lparr>URL_Path = ''/app1''\<rparr> world0) =
     Inr (proxy_ServeHTTP (localhost ''8082'') \<lparr>URL_Path = ''/localhost:8082/app1''\<rparr>)
   \<and> (\<exists>g s. spec_resolve (URL_Path \<lparr>URL_Path = ''/app1''\<rparr>) (targetGroups tg_main) = Some g
         \<and> s \<in> set (Servers g) \<and> localhost ''8082'' = URL s)"
proof -
  have a: "fst (ServeHTTP_tg net_8084_up tg_shared_path \<lparr>URL_Path = ''/app1''\<rparr> world0) =
     Inr (proxy_ServeHTTP (localhost ''8084'') \<lparr>URL_Path = ''/localhost:8084/app1''\<rparr>)"
    by (simp add: tg_shared_path_def net_8084_up_def example_defs run_defs)
  have b: "distinct (map URIPath (targetGroups tg_main))"
    by (simp add: example_defs)
  have c: "fst (ServeHTTP_tg net_up tg_main \<lparr>URL_Path = ''/app1''\<rparr> world0) =
     Inr (proxy_ServeHTTP (localhost ''8082'') \<lparr>URL_Path = ''/localhost:8082/app1''\<rparr>)"
    by (simp add: example_defs run_defs)
  show ?thesis
    using a b c
      forwarded_backend_route [of net_8084_up tg_shared_path "\<lparr>URL_Path = ''/app1''\<rparr>" world0
        "localhost ''8084''" "\<lparr>URL_Path = ''/localhost:8084/app1''\<rparr>"]
      forwarded_backend_route [of net_up tg_main "\<lparr>URL_Path = ''/app1''\<rparr>" world0
        "localhost ''8082''" "\<lparr>URL_Path = ''/localhost:8082/app1''\<rparr>"]
    by blast
qed

end
